theory Spec2Isabelle
  imports Main "HOL-Library.Word"
begin

section \<open>JavaScript values, objects and calls\<close>

text \<open>
  The engine of \<^verbatim>\<open>steps.js\<close> works on untyped JavaScript objects, so the model keeps
  the values untyped as well.

  \<^item> \<open>Num\<close> is a JavaScript number that is an integer from \<open>-2\<^sup>5\<^sup>3\<close> to \<open>2\<^sup>5\<^sup>3 - 1\<close>, held
    as a signed word of 54 bits: every such integer is a number of JavaScript, and
    timestamps are among them. Other numbers are not modelled.
  \<^item> \<open>Arr\<close> and \<open>Obj\<close> are an array and an object literal held by value: the history
    array of a record and the snapshots in it.
  \<^item> \<open>Ref\<close> is a reference to an object of the store, compared by identity: the record
    handed to the step function is one.
  \<^item> \<open>Err\<close> is an error object: \<^verbatim>\<open>new Error(m)\<close>, or one created by the runtime or
    by \<^verbatim>\<open>assert\<close>.
\<close>

type_synonym safe_int = "54 word"

datatype exn = Error string | AssertionError string | TypeError string

datatype jsval =
    Undefined
  | Null
  | Bool bool
  | Num safe_int
  | Str string
  | Arr "jsval list"
  | Obj "(string \<times> jsval) list"
  | Ref nat
  | Err exn

type_synonym jsobj = "string \<rightharpoonup> jsval"

type_synonym heap = "nat \<Rightarrow> jsobj"

text \<open>
  A call either returns a value or throws one. For an \<^verbatim>\<open>async\<close> function the completion
  is what \<^verbatim>\<open>await\<close> observes: \<open>Return\<close> for a fulfilled promise (or a plain value),
  \<open>Throw\<close> for a synchronous throw and for a rejection alike.
\<close>

datatype completion = Return jsval | Throw jsval

text \<open>
  A JavaScript function takes the store and its argument list; it gives back the store
  as it left it, and its completion. State handlers and the catch handler are such
  functions; a handler may change any object, the record included.
\<close>

type_synonym jsfun = "heap \<Rightarrow> jsval list \<Rightarrow> heap \<times> completion"

text \<open>
  The handler table, by its own properties: \<open>handlers k\<close> is the entry the table itself
  has under \<open>k\<close>. The entries are functions. What a read \<^verbatim>\<open>handlers[k]\<close> yields is
  \<open>lookup\<close> below, which goes on to the prototype.
\<close>

type_synonym handlers = "string \<rightharpoonup> jsfun"

text \<open>Truthiness, as \<^verbatim>\<open>if (v)\<close> and \<^verbatim>\<open>assert(v)\<close> test it.\<close>

fun truthy :: "jsval \<Rightarrow> bool" where
  "truthy Undefined = False"
| "truthy Null = False"
| "truthy (Bool b) = b"
| "truthy (Num n) = (n \<noteq> 0)"
| "truthy (Str s) = (s \<noteq> [])"
| "truthy (Arr xs) = True"
| "truthy (Obj kvs) = True"
| "truthy (Ref a) = True"
| "truthy (Err e) = True"

text \<open>The test \<^verbatim>\<open>v == null\<close>.\<close>

fun nullish :: "jsval \<Rightarrow> bool" where
  "nullish Undefined = True"
| "nullish Null = True"
| "nullish v = False"

text \<open>The test \<^verbatim>\<open>typeof v === 'string'\<close>.\<close>

fun is_string :: "jsval \<Rightarrow> bool" where
  "is_string (Str s) = True"
| "is_string v = False"

text \<open>
  Conversion to a string, as a property key (\<^verbatim>\<open>handlers[state.state]\<close>) and as the
  right operand of \<^verbatim>\<open>+\<close> on a string need it. Integers print in decimal, an array
  joins its elements with commas, a plain object prints as \<^verbatim>\<open>[object Object]\<close>, an
  error as its name and message (the name alone when the message is empty).
\<close>

definition digit :: "nat \<Rightarrow> char" where
  "digit d = ''0123456789'' ! d"

fun dec :: "nat \<Rightarrow> string" where
  "dec n = (if n < 10 then [digit n] else dec (n div 10) @ [digit (n mod 10)])"

fun to_string :: "jsval \<Rightarrow> string"
  and join :: "jsval list \<Rightarrow> string" where
  "to_string Undefined = ''undefined''"
| "to_string Null = ''null''"
| "to_string (Bool b) = (if b then ''true'' else ''false'')"
| "to_string (Num n) = (if sint n < 0 then ''-'' @ dec (nat (- sint n)) else dec (nat (sint n)))"
| "to_string (Str s) = s"
| "to_string (Arr xs) = join xs"
| "to_string (Obj kvs) = ''[object Object]''"
| "to_string (Ref a) = ''[object Object]''"
| "to_string (Err (Error m)) = (if m = [] then ''Error'' else ''Error: '' @ m)"
| "to_string (Err (AssertionError m)) = ''AssertionError [ERR_ASSERTION]: '' @ m"
| "to_string (Err (TypeError m)) = (if m = [] then ''TypeError'' else ''TypeError: '' @ m)"
| "join [] = []"
| "join [x] = (if nullish x then [] else to_string x)"
| "join (x # y # ys) = (if nullish x then [] else to_string x) @ '','' @ join (y # ys)"

text \<open>Reading and writing a property of the object at an address.\<close>

definition get_prop :: "heap \<Rightarrow> nat \<Rightarrow> string \<Rightarrow> jsval" where
  "get_prop h a k = (case h a k of None \<Rightarrow> Undefined | Some v \<Rightarrow> v)"

definition set_prop :: "heap \<Rightarrow> nat \<Rightarrow> string \<Rightarrow> jsval \<Rightarrow> heap" where
  "set_prop h a k v = h(a := (h a)(k \<mapsto> v))"

section \<open>Reading the handler table\<close>

text \<open>
  The table is a plain object, as the object literals of the README and of the test are.
  A read \<^verbatim>\<open>handlers[k]\<close> that finds no own property goes on to \<^verbatim>\<open>Object.prototype\<close>,
  which has twelve properties. \<open>object_prototype this\<close> gives them as functions of the
  table \<open>this\<close> they are called on: in \<^verbatim>\<open>handlers[k](state, ...args)\<close> the table is the
  receiver, and the record is the first argument. The values of the model are data, so no
  argument is a function.

  \<^item> \<^verbatim>\<open>constructor\<close> is \<^verbatim>\<open>Object\<close>: it returns its argument when that is an object,
    and an object made for it otherwise.
  \<^item> \<^verbatim>\<open>toString\<close> returns \<^verbatim>\<open>[object Object]\<close>; \<^verbatim>\<open>toLocaleString\<close> calls the
    \<^verbatim>\<open>toString\<close> of the table, its own one if it has one.
  \<^item> \<^verbatim>\<open>valueOf\<close> returns the table.
  \<^item> \<^verbatim>\<open>hasOwnProperty\<close> and \<^verbatim>\<open>propertyIsEnumerable\<close> tell whether the table has an
    own property under the key their argument converts to; \<^verbatim>\<open>isPrototypeOf\<close> is false,
    the table being nobody's prototype.
  \<^item> \<^verbatim>\<open>__defineGetter__\<close> and \<^verbatim>\<open>__defineSetter__\<close> throw a \<^verbatim>\<open>TypeError\<close>, their second
    argument not being a function; \<^verbatim>\<open>__lookupGetter__\<close> and \<^verbatim>\<open>__lookupSetter__\<close> find
    no accessor and return \<^verbatim>\<open>undefined\<close>.
  \<^item> \<^verbatim>\<open>__proto__\<close> reads as the prototype object, which is truthy and not a function:
    calling it throws a \<^verbatim>\<open>TypeError\<close>, and so does the function that stands for it
    here.
\<close>

definition arg0 :: "jsval list \<Rightarrow> jsval" where
  "arg0 as = (case as of [] \<Rightarrow> Undefined | v # _ \<Rightarrow> v)"

text \<open>
  The table as a value, and the object \<^verbatim>\<open>Object(v)\<close> makes for a value that is not
  one: objects that are neither strings nor the record. Their contents are never read.
\<close>

definition table_object :: jsval where
  "table_object = Obj []"

fun to_object :: "jsval \<Rightarrow> jsval" where
  "to_object (Arr xs) = Arr xs"
| "to_object (Obj kvs) = Obj kvs"
| "to_object (Ref a) = Ref a"
| "to_object (Err e) = Err e"
| "to_object v = Obj []"

definition has_own :: "handlers \<Rightarrow> jsval \<Rightarrow> bool" where
  "has_own this v = (case this (to_string v) of None \<Rightarrow> False | Some f \<Rightarrow> True)"

definition object_prototype :: "handlers \<Rightarrow> handlers" where
  "object_prototype this =
     [''constructor'' \<mapsto> (\<lambda>h as. (h, Return (to_object (arg0 as)))),
      ''toString'' \<mapsto> (\<lambda>h as. (h, Return (Str ''[object Object]''))),
      ''toLocaleString'' \<mapsto>
        (\<lambda>h as. case this ''toString'' of
                   None \<Rightarrow> (h, Return (Str ''[object Object]''))
                 | Some f \<Rightarrow> f h []),
      ''valueOf'' \<mapsto> (\<lambda>h as. (h, Return table_object)),
      ''hasOwnProperty'' \<mapsto> (\<lambda>h as. (h, Return (Bool (has_own this (arg0 as))))),
      ''propertyIsEnumerable'' \<mapsto> (\<lambda>h as. (h, Return (Bool (has_own this (arg0 as))))),
      ''isPrototypeOf'' \<mapsto> (\<lambda>h as. (h, Return (Bool False))),
      ''__defineGetter__'' \<mapsto>
        (\<lambda>h as. (h, Throw (Err (TypeError
                   ''Object.prototype.__defineGetter__: Expecting function'')))),
      ''__defineSetter__'' \<mapsto>
        (\<lambda>h as. (h, Throw (Err (TypeError
                   ''Object.prototype.__defineSetter__: Expecting function'')))),
      ''__lookupGetter__'' \<mapsto> (\<lambda>h as. (h, Return Undefined)),
      ''__lookupSetter__'' \<mapsto> (\<lambda>h as. (h, Return Undefined)),
      ''__proto__'' \<mapsto>
        (\<lambda>h as. (h, Throw (Err (TypeError ''handlers[state.state] is not a function''))))]"

definition inherited_names :: "string list" where
  "inherited_names =
     [''constructor'', ''toString'', ''toLocaleString'', ''valueOf'', ''hasOwnProperty'',
      ''propertyIsEnumerable'', ''isPrototypeOf'', ''__defineGetter__'', ''__defineSetter__'',
      ''__lookupGetter__'', ''__lookupSetter__'', ''__proto__'']"

text \<open>The read \<^verbatim>\<open>handlers[k]\<close>: \<open>None\<close> when it yields \<^verbatim>\<open>undefined\<close>.\<close>

definition lookup :: "handlers \<Rightarrow> string \<Rightarrow> jsfun option" where
  "lookup handlers k =
     (case handlers k of Some f \<Rightarrow> Some f | None \<Rightarrow> object_prototype handlers k)"

section \<open>The step engine\<close>

text \<open>
  \<^verbatim>\<open>archive(state)\<close>: the history is created when it is \<^verbatim>\<open>null\<close> or absent, then the
  snapshot \<^verbatim>\<open>{state, updated}\<close> is put in front. \<^verbatim>\<open>unshift\<close> exists on arrays only:
  on any other value the call throws a \<^verbatim>\<open>TypeError\<close>.
\<close>

definition snapshot :: "heap \<Rightarrow> nat \<Rightarrow> jsval" where
  "snapshot h a = Obj [(''state'', get_prop h a ''state''), (''updated'', get_prop h a ''updated'')]"

definition archive :: "heap \<Rightarrow> nat \<Rightarrow> heap \<times> completion" where
  "archive h a =
     (let h1 = (if nullish (get_prop h a ''history'') then set_prop h a ''history'' (Arr []) else h)
      in case get_prop h1 a ''history'' of
           Arr xs \<Rightarrow> (set_prop h1 a ''history'' (Arr (snapshot h1 a # xs)), Return (Ref a))
         | _ \<Rightarrow> (h1, Throw (Err (TypeError ''state.history.unshift is not a function''))))"

text \<open>
  The body of the \<^verbatim>\<open>try\<close> block: archive, stamp \<^verbatim>\<open>updated\<close> with \<^verbatim>\<open>Date.now()\<close>
  (the parameter \<open>now\<close>), look the handler up again and call it with the record and the
  extra arguments.
\<close>

definition try_block :: "handlers \<Rightarrow> safe_int \<Rightarrow> heap \<Rightarrow> nat \<Rightarrow> jsval list \<Rightarrow> heap \<times> completion" where
  "try_block handlers now h a args =
     (case archive h a of
        (h1, Throw e) \<Rightarrow> (h1, Throw e)
      | (h1, Return _) \<Rightarrow>
          (let h2 = set_prop h1 a ''updated'' (Num now)
           in case lookup handlers (to_string (get_prop h2 a ''state'')) of
                None \<Rightarrow> (h2, Throw (Err (TypeError ''handlers[state.state] is not a function'')))
              | Some f \<Rightarrow> f h2 (Ref a # args)))"

text \<open>The \<^verbatim>\<open>catch\<close> clause: \<^verbatim>\<open>handlers.catch(e, state, ...args)\<close>.\<close>

definition call_catch :: "handlers \<Rightarrow> heap \<Rightarrow> jsval \<Rightarrow> nat \<Rightarrow> jsval list \<Rightarrow> heap \<times> completion" where
  "call_catch handlers h e a args =
     (case lookup handlers ''catch'' of
        None \<Rightarrow> (h, Throw (Err (TypeError ''handlers.catch is not a function'')))
      | Some c \<Rightarrow> c h (e # Ref a # args))"

text \<open>The whole \<^verbatim>\<open>try\<close>/\<^verbatim>\<open>catch\<close> statement; its value is the variable \<^verbatim>\<open>transition\<close>.\<close>

definition transition_result :: "handlers \<Rightarrow> safe_int \<Rightarrow> heap \<Rightarrow> nat \<Rightarrow> jsval list \<Rightarrow> heap \<times> completion" where
  "transition_result handlers now h a args =
     (case try_block handlers now h a args of
        (h1, Throw e) \<Rightarrow> call_catch handlers h1 e a args
      | (h1, Return v) \<Rightarrow> (h1, Return v))"

text \<open>
  What follows the \<^verbatim>\<open>try\<close>/\<^verbatim>\<open>catch\<close> statement: the record itself and a falsy value
  leave \<^verbatim>\<open>state.state\<close> alone, a truthy value has to be a string and becomes the state.
\<close>

definition apply_transition :: "nat \<Rightarrow> heap \<times> completion \<Rightarrow> heap \<times> completion" where
  "apply_transition a r =
     (case r of
        (h1, Throw e) \<Rightarrow> (h1, Throw e)
      | (h1, Return transition) \<Rightarrow>
          if transition = Ref a then (h1, Return (Ref a))
          else if truthy transition then
            (if is_string transition then (set_prop h1 a ''state'' transition, Return (Ref a))
             else (h1, Throw (Err (AssertionError
                    ''State handlers must return either a string state transition or nothing''))))
          else (h1, Return (Ref a)))"

text \<open>
  \<^verbatim>\<open>step(state, ...args)\<close> on the record at address \<open>a\<close>: the argument is the
  reference \<open>Ref a\<close>. A reference is truthy, so the opening \<^verbatim>\<open>assert(state)\<close> passes
  and has no branch here. \<^verbatim>\<open>done\<close> is tested for truthiness, the handler is looked up
  under the string the state converts to, and both happen before the \<^verbatim>\<open>try\<close> block.
\<close>

definition step :: "handlers \<Rightarrow> safe_int \<Rightarrow> heap \<Rightarrow> nat \<Rightarrow> jsval list \<Rightarrow> heap \<times> completion" where
  "step handlers now h a args =
     (if truthy (get_prop h a ''done'') then (h, Return (Ref a))
      else if lookup handlers (to_string (get_prop h a ''state'')) = None
      then (h, Throw (Err (AssertionError
              (''Invalid state trasition: '' @ to_string (get_prop h a ''state'')))))
      else apply_transition a (transition_result handlers now h a args))"

text \<open>
  The module function: the table is required, and a table without a \<^verbatim>\<open>catch\<close> entry
  gets \<^verbatim>\<open>e => { throw e }\<close>. The step function it returns closes over that table.
\<close>

definition default_catch :: jsfun where
  "default_catch h as = (h, Throw (arg0 as))"

definition install_catch :: "handlers \<Rightarrow> handlers" where
  "install_catch handlers =
     (if lookup handlers ''catch'' = None then handlers(''catch'' \<mapsto> default_catch)
      else handlers)"

definition makeStepper ::
  "handlers option \<Rightarrow> jsval + (safe_int \<Rightarrow> heap \<Rightarrow> nat \<Rightarrow> jsval list \<Rightarrow> heap \<times> completion)" where
  "makeStepper handlers =
     (case handlers of
        None \<Rightarrow> Inl (Err (AssertionError ''Requires handlers object''))
      | Some t \<Rightarrow> Inr (step (install_catch t)))"

section \<open>The state constructor\<close>

text \<open>
  \<^verbatim>\<open>State(state = {})\<close>: the four defaults, then the properties of the argument spread
  over them. \<open>None\<close> is a call without an argument.
\<close>

definition defaults :: "safe_int \<Rightarrow> jsobj" where
  "defaults now =
     [''state'' \<mapsto> Str ''Start'', ''done'' \<mapsto> Bool False,
      ''history'' \<mapsto> Arr [], ''updated'' \<mapsto> Num now]"

definition State :: "safe_int \<Rightarrow> jsobj option \<Rightarrow> jsobj" where
  "State now state = defaults now ++ (case state of None \<Rightarrow> Map.empty | Some m \<Rightarrow> m)"

section \<open>Notions the properties are stated with\<close>

text \<open>
  A record's history is well formed when it is absent, \<^verbatim>\<open>null\<close> or an array, as the
  schema of the README has it. \<open>history_of\<close> reads it as a list, the empty one when
  there is no array.
\<close>

definition history_ok :: "jsval \<Rightarrow> bool" where
  "history_ok v = (case v of Undefined \<Rightarrow> True | Null \<Rightarrow> True | Arr xs \<Rightarrow> True | _ \<Rightarrow> False)"

definition history_of :: "heap \<Rightarrow> nat \<Rightarrow> jsval list" where
  "history_of h a = (case get_prop h a ''history'' of Arr xs \<Rightarrow> xs | _ \<Rightarrow> [])"

text \<open>The store in which the handler is called: archived, then stamped with the time.\<close>

definition stamped :: "safe_int \<Rightarrow> heap \<Rightarrow> nat \<Rightarrow> heap" where
  "stamped now h a = set_prop (fst (archive h a)) a ''updated'' (Num now)"

text \<open>A function that never changes the \<^verbatim>\<open>history\<close> property of the object at \<open>a\<close>.\<close>

definition keeps_history :: "jsfun \<Rightarrow> nat \<Rightarrow> bool" where
  "keeps_history f a =
     (\<forall>h as h' r. f h as = (h', r) \<longrightarrow> get_prop h' a ''history'' = get_prop h a ''history'')"

section \<open>Example handlers and records\<close>

text \<open>
  Handlers as the README and the test of the repository write them:
  \<^verbatim>\<open>data => 'Next'\<close>, \<^verbatim>\<open>data => { throw e }\<close>, \<^verbatim>\<open>data => { data.done = true }\<close>,
  \<^verbatim>\<open>data => { data.history = [] }\<close> and \<^verbatim>\<open>data => 5\<close>.
\<close>

definition goto :: "string \<Rightarrow> jsfun" where
  "goto s h as = (h, Return (Str s))"

definition raise :: "jsval \<Rightarrow> jsfun" where
  "raise e h as = (h, Throw e)"

definition assign_first :: "string \<Rightarrow> jsval \<Rightarrow> jsfun" where
  "assign_first k v h as =
     (case as of
        Ref a # _ \<Rightarrow> (set_prop h a k v, Return Undefined)
      | _ \<Rightarrow> (h, Throw (Err (TypeError ''Cannot set properties''))))"

definition give :: "jsval \<Rightarrow> jsfun" where
  "give v h as = (h, Return v)"

text \<open>The table of the repository's test.\<close>

definition test_steps :: handlers where
  "test_steps =
     [''Start'' \<mapsto> goto ''Middle'',
      ''Middle'' \<mapsto> goto ''Error'',
      ''Error'' \<mapsto> raise (Err (Error ''error'')),
      ''End'' \<mapsto> assign_first ''done'' (Bool True),
      ''catch'' \<mapsto> goto ''End'']"

text \<open>A store whose object 0 is the given record, every other object being empty.\<close>

definition record_at :: "jsobj \<Rightarrow> heap" where
  "record_at obj = (\<lambda>_. Map.empty)(0 := obj)"

text \<open>
  Further tables: a handler that empties the history, one that returns the empty string,
  a catch handler that does, a handler that returns a number, and a table without a
  \<^verbatim>\<open>catch\<close> entry whose handler throws.
\<close>

definition trimming_steps :: handlers where
  "trimming_steps = [''Start'' \<mapsto> assign_first ''history'' (Arr [])]"

definition blank_steps :: handlers where
  "blank_steps = [''Start'' \<mapsto> goto []]"

definition blank_catch_steps :: handlers where
  "blank_catch_steps = [''Start'' \<mapsto> raise (Err (Error ''error'')), ''catch'' \<mapsto> goto []]"

definition number_steps :: handlers where
  "number_steps = [''Start'' \<mapsto> give (Num 5)]"

definition failing_steps :: handlers where
  "failing_steps = [''Start'' \<mapsto> raise (Err (Error ''error''))]"

text \<open>
  Records: \<^verbatim>\<open>State()\<close>, \<^verbatim>\<open>State({done: true})\<close> and \<^verbatim>\<open>State({state: s})\<close>, each made at
  time 1000.
\<close>

definition fresh_record :: heap where
  "fresh_record = record_at (State 1000 None)"

definition done_record :: heap where
  "done_record = record_at (State 1000 (Some [''done'' \<mapsto> Bool True]))"

definition record_in :: "string \<Rightarrow> heap" where
  "record_in s = record_at (State 1000 (Some [''state'' \<mapsto> Str s]))"

section \<open>Unfolding and basic facts\<close>

lemmas engine_defs =
  step_def apply_transition_def transition_result_def try_block_def call_catch_def
  archive_def snapshot_def get_prop_def set_prop_def install_catch_def default_catch_def
  lookup_def object_prototype_def arg0_def has_own_def table_object_def
  stamped_def history_ok_def history_of_def

lemmas example_defs =
  record_at_def State_def defaults_def test_steps_def goto_def raise_def assign_first_def
  give_def trimming_steps_def blank_steps_def blank_catch_steps_def number_steps_def
  failing_steps_def

lemmas record_defs = fresh_record_def done_record_def record_in_def

text \<open>
  Reads of the table: an own property is found first, \<^verbatim>\<open>catch\<close> is not among the
  inherited names, and a name that is neither own nor inherited finds nothing.
\<close>

lemma lookup_own: "handlers k = Some f \<Longrightarrow> lookup handlers k = Some f"
  by (simp add: lookup_def)

lemma lookup_catch: "lookup handlers ''catch'' = handlers ''catch''"
  by (simp add: lookup_def object_prototype_def split: option.splits)

lemma object_prototype_dom: "dom (object_prototype this) = set inherited_names"
  by (auto simp: inherited_names_def object_prototype_def)

lemma object_prototype_None: "k \<notin> set inherited_names \<Longrightarrow> object_prototype this k = None"
  using object_prototype_dom [of this] by blast

lemma lookup_None:
  "handlers k = None \<Longrightarrow> k \<notin> set inherited_names \<Longrightarrow> lookup handlers k = None"
  by (simp add: lookup_def object_prototype_None)

lemma call_catch_eq:
  "call_catch handlers h e a args =
     (case handlers ''catch'' of
        None \<Rightarrow> (h, Throw (Err (TypeError ''handlers.catch is not a function'')))
      | Some c \<Rightarrow> c h (e # Ref a # args))"
  by (simp add: call_catch_def lookup_catch)

lemma install_catch_eq:
  "install_catch handlers =
     (if handlers ''catch'' = None then handlers(''catch'' \<mapsto> default_catch) else handlers)"
  by (simp add: install_catch_def lookup_catch)

lemma get_set_same: "get_prop (set_prop h a k v) a k = v"
  by (simp add: get_prop_def set_prop_def)

lemma get_set_other: "k' \<noteq> k \<Longrightarrow> get_prop (set_prop h a k v) a k' = get_prop h a k'"
  by (simp add: get_prop_def set_prop_def)

lemma set_set_same: "set_prop (set_prop h a k v) a k w = set_prop h a k w"
  by (simp add: set_prop_def)

lemma archive_ok:
  assumes "history_ok (get_prop h a ''history'')"
  shows "archive h a = (set_prop h a ''history'' (Arr (snapshot h a # history_of h a)), Return (Ref a))"
proof (cases "nullish (get_prop h a ''history'')")
  case True
  then have "history_of h a = []"
    by (cases "get_prop h a ''history''") (simp_all add: history_of_def)
  moreover have "snapshot (set_prop h a ''history'' (Arr [])) a = snapshot h a"
    by (simp add: snapshot_def get_set_other)
  ultimately show ?thesis
    using True by (simp add: archive_def get_set_same set_set_same)
next
  case False
  with assms obtain xs where "get_prop h a ''history'' = Arr xs"
    by (cases "get_prop h a ''history''") (simp_all add: history_ok_def)
  then show ?thesis
    by (simp add: archive_def history_of_def)
qed

lemma archive_state: "get_prop (fst (archive h a)) a ''state'' = get_prop h a ''state''"
  by (cases "get_prop h a ''history''")
     (auto simp: archive_def Let_def get_set_other get_set_same split: jsval.splits)

lemma stamped_state: "get_prop (stamped now h a) a ''state'' = get_prop h a ''state''"
  by (simp add: stamped_def get_set_other archive_state)

lemma stamped_updated: "get_prop (stamped now h a) a ''updated'' = Num now"
  by (simp add: stamped_def get_set_same)

lemma stamped_history:
  "history_ok (get_prop h a ''history'') \<Longrightarrow>
   get_prop (stamped now h a) a ''history'' = Arr (snapshot h a # history_of h a)"
  by (simp add: stamped_def archive_ok get_set_other get_set_same)

lemma try_block_ok:
  assumes "history_ok (get_prop h a ''history'')"
    and "handlers (to_string (get_prop h a ''state'')) = Some f"
  shows "try_block handlers now h a args = f (stamped now h a) (Ref a # args)"
proof -
  have "get_prop (set_prop (fst (archive h a)) a ''updated'' (Num now)) a ''state'' = get_prop h a ''state''"
    using stamped_state [of now h a] by (simp add: stamped_def)
  then show ?thesis
    using assms by (simp add: try_block_def archive_ok stamped_def Let_def lookup_own)
qed

lemma step_done: "truthy (get_prop h a ''done'') \<Longrightarrow> step handlers now h a args = (h, Return (Ref a))"
  by (simp add: step_def)

lemma step_live:
  assumes "\<not> truthy (get_prop h a ''done'')"
    and "handlers (to_string (get_prop h a ''state'')) = Some f"
  shows "step handlers now h a args = apply_transition a (transition_result handlers now h a args)"
  using assms by (simp add: step_def lookup_own)

lemma transition_result_return:
  assumes "history_ok (get_prop h a ''history'')"
    and "handlers (to_string (get_prop h a ''state'')) = Some f"
    and "f (stamped now h a) (Ref a # args) = (h1, Return v)"
  shows "transition_result handlers now h a args = (h1, Return v)"
  using assms by (simp add: transition_result_def try_block_ok)

lemma transition_result_throw:
  assumes "history_ok (get_prop h a ''history'')"
    and "handlers (to_string (get_prop h a ''state'')) = Some f"
    and "f (stamped now h a) (Ref a # args) = (h1, Throw e)"
  shows "transition_result handlers now h a args = call_catch handlers h1 e a args"
  using assms by (simp add: transition_result_def try_block_ok)

lemma apply_transition_string:
  "S \<noteq> [] \<Longrightarrow> apply_transition a (h1, Return (Str S)) = (set_prop h1 a ''state'' (Str S), Return (Ref a))"
  by (simp add: apply_transition_def)

lemma apply_transition_history:
  assumes "apply_transition a (h1, r) = (h', Return v)"
  shows "get_prop h' a ''history'' = get_prop h1 a ''history''"
  using assms
  by (cases r) (auto simp: apply_transition_def get_set_other split: if_splits)

lemma fresh_not_done: "\<not> truthy (get_prop fresh_record 0 ''done'')"
  by (simp add: engine_defs example_defs record_defs)

lemma fresh_history_ok: "history_ok (get_prop fresh_record 0 ''history'')"
  by (simp add: engine_defs example_defs record_defs)

lemma fresh_state: "get_prop fresh_record 0 ''state'' = Str ''Start''"
  by (simp add: engine_defs example_defs record_defs)

lemma fresh_snapshot: "snapshot fresh_record 0 = Obj [(''state'', Str ''Start''), (''updated'', Num 1000)]"
  by (simp add: engine_defs example_defs record_defs)

lemma fresh_history: "history_of fresh_record 0 = []"
  by (simp add: engine_defs example_defs record_defs)

lemma record_in_not_done: "\<not> truthy (get_prop (record_in s) 0 ''done'')"
  by (simp add: engine_defs example_defs record_defs)

lemma record_in_history_ok: "history_ok (get_prop (record_in s) 0 ''history'')"
  by (simp add: engine_defs example_defs record_defs)

lemma record_in_state: "get_prop (record_in s) 0 ''state'' = Str s"
  by (simp add: engine_defs example_defs record_defs)

lemma keeps_history_goto: "keeps_history (goto s) a"
  by (simp add: keeps_history_def goto_def)

text \<open>
  The run of the repository's test: four steps take a fresh record through \<open>Middle\<close>,
  \<open>Error\<close> (whose handler throws, the catch handler answering \<open>End\<close>) and \<open>End\<close>,
  which sets \<^verbatim>\<open>done\<close>.
\<close>

lemma repository_test_run:
  "(let (h1, r1) = step (install_catch test_steps) 2000 fresh_record 0 [];
        (h2, r2) = step (install_catch test_steps) 3000 h1 0 [];
        (h3, r3) = step (install_catch test_steps) 4000 h2 0 [];
        (h4, r4) = step (install_catch test_steps) 5000 h3 0 []
    in r4 = Return (Ref 0) \<and> get_prop h4 0 ''state'' = Str ''End'' \<and>
       get_prop h4 0 ''done'' = Bool True \<and>
       get_prop h3 0 ''state'' = Str ''End'' \<and> get_prop h3 0 ''done'' = Bool False \<and>
       get_prop h4 0 ''history'' =
         Arr [Obj [(''state'', Str ''End''), (''updated'', Num 4000)],
              Obj [(''state'', Str ''Error''), (''updated'', Num 3000)],
              Obj [(''state'', Str ''Middle''), (''updated'', Num 2000)],
              Obj [(''state'', Str ''Start''), (''updated'', Num 1000)]])"
  by (simp add: engine_defs example_defs record_defs)

text \<open>Conversions to a string, on a few values.\<close>

lemma to_string_examples:
  "to_string (Num (- 12)) = ''-12'' \<and> to_string (Num 1000) = ''1000'' \<and>
   to_string (Arr [Num 1, Null, Str ''x'']) = ''1,,x'' \<and> to_string Undefined = ''undefined'' \<and>
   to_string (Err (Error [])) = ''Error'' \<and> to_string (Err (Error ''error'')) = ''Error: error''"
  by (simp add: digit_def)

text \<open>
  Why the properties below ask for a history that is absent, \<^verbatim>\<open>null\<close> or an array:
  the archive is inside the \<^verbatim>\<open>try\<close> block, so on a record with \<^verbatim>\<open>history: 5\<close> the
  \<^verbatim>\<open>TypeError\<close> of \<^verbatim>\<open>unshift\<close> goes to the catch handler, the state handler is not
  called, and nothing is archived or stamped.
\<close>

lemma non_array_history_goes_to_catch:
  "snd (step test_steps 2000 (record_at (State 1000 (Some [''history'' \<mapsto> Num 5]))) 0 []) =
     Return (Ref 0) \<and>
   get_prop (fst (step test_steps 2000 (record_at (State 1000 (Some [''history'' \<mapsto> Num 5]))) 0 []))
     0 ''state'' = Str ''End'' \<and>
   get_prop (fst (step test_steps 2000 (record_at (State 1000 (Some [''history'' \<mapsto> Num 5]))) 0 []))
     0 ''history'' = Num 5 \<and>
   get_prop (fst (step test_steps 2000 (record_at (State 1000 (Some [''history'' \<mapsto> Num 5]))) 0 []))
     0 ''updated'' = Num 1000"
  by (simp add: engine_defs example_defs)

text \<open>The table of the test has its own catch handler, so construction leaves it as it is.\<close>

lemma install_catch_test_steps: "install_catch test_steps = test_steps"
  by (simp add: install_catch_eq test_steps_def)

section \<open>Properties of the step engine\<close>

subsection \<open>C1: the archive entry of a successful step\<close>

text \<open>
  Claim C1 says that after every successful step on a record that is not done,
  \<^verbatim>\<open>history[0]\<close> is the snapshot of \<^verbatim>\<open>state\<close> and \<^verbatim>\<open>updated\<close> from before the
  step, and the history is one longer. The handler runs after the archive and owns the
  record, so it can rewrite the history: with the handler
  \<^verbatim>\<open>Start: data => { data.history = [] }\<close> the step on a fresh record succeeds and the
  history is empty afterwards.
\<close>

theorem history_claim_counterexample:
  "\<not> truthy (get_prop fresh_record 0 ''done'') \<and>
   snd (step (install_catch trimming_steps) 2000 fresh_record 0 []) = Return (Ref 0) \<and>
   history_of fresh_record 0 = [] \<and>
   history_of (fst (step (install_catch trimming_steps) 2000 fresh_record 0 [])) 0 = [] \<and>
   length (history_of (fst (step (install_catch trimming_steps) 2000 fresh_record 0 [])) 0) \<noteq>
     length (history_of fresh_record 0) + 1"
  by (simp add: engine_defs example_defs record_defs)

text \<open>
  C1 as amended: for a record that is not done and whose history is absent, \<^verbatim>\<open>null\<close>
  or an array, when the handler of its state and the catch handler leave the
  \<^verbatim>\<open>history\<close> property of the record alone and the step succeeds, the history after
  the step is the snapshot \<^verbatim>\<open>{state, updated}\<close> of the values before the step, followed
  by the former history (the empty one when there was none): \<^verbatim>\<open>history[0]\<close> is that
  snapshot, and the length has grown by exactly one.
\<close>

theorem history_grows_by_snapshot:
  assumes "\<not> truthy (get_prop h a ''done'')"
    and "history_ok (get_prop h a ''history'')"
    and "handlers (to_string (get_prop h a ''state'')) = Some f"
    and "keeps_history f a"
    and "\<forall>c. handlers ''catch'' = Some c \<longrightarrow> keeps_history c a"
    and "step handlers now h a args = (h', Return v)"
  shows "get_prop h' a ''history'' = Arr (snapshot h a # history_of h a) \<and>
         history_of h' a ! 0 = snapshot h a \<and>
         length (history_of h' a) = length (history_of h a) + 1"
proof -
  obtain hm r where tr: "transition_result handlers now h a args = (hm, r)"
    by (cases "transition_result handlers now h a args")
  obtain h1 r1 where call: "f (stamped now h a) (Ref a # args) = (h1, r1)"
    by (cases "f (stamped now h a) (Ref a # args)")
  have h1: "get_prop h1 a ''history'' = get_prop (stamped now h a) a ''history''"
    using assms(4) call by (auto simp: keeps_history_def)
  have "get_prop hm a ''history'' = get_prop h1 a ''history''"
  proof (cases r1)
    case (Return t)
    with tr call assms(2,3) show ?thesis
      by (simp add: transition_result_return)
  next
    case (Throw e)
    with tr call assms(2,3) have cc: "call_catch handlers h1 e a args = (hm, r)"
      by (simp add: transition_result_throw)
    show ?thesis
    proof (cases "handlers ''catch''")
      case None
      with cc show ?thesis by (simp add: call_catch_eq)
    next
      case (Some c)
      with cc have "c h1 (e # Ref a # args) = (hm, r)"
        by (simp add: call_catch_eq)
      moreover have "keeps_history c a" using assms(5) Some by simp
      ultimately show ?thesis by (auto simp: keeps_history_def)
    qed
  qed
  moreover have "apply_transition a (hm, r) = (h', Return v)"
    using assms(1,3,6) tr by (simp add: step_live)
  then have "get_prop h' a ''history'' = get_prop hm a ''history''"
    by (rule apply_transition_history)
  ultimately have "get_prop h' a ''history'' = Arr (snapshot h a # history_of h a)"
    using h1 assms(2) by (simp add: stamped_history)
  then show ?thesis
    by (simp add: history_of_def)
qed

text \<open>The first step of the test run: the snapshot of \<open>Start\<close> at time 1000 is archived.\<close>

theorem history_grows_by_snapshot_witness:
  "\<not> truthy (get_prop fresh_record 0 ''done'') \<and>
   history_ok (get_prop fresh_record 0 ''history'') \<and>
   test_steps (to_string (get_prop fresh_record 0 ''state'')) = Some (goto ''Middle'') \<and>
   keeps_history (goto ''Middle'') 0 \<and>
   test_steps ''catch'' = Some (goto ''End'') \<and> keeps_history (goto ''End'') 0 \<and>
   snd (step test_steps 2000 fresh_record 0 []) = Return (Ref 0) \<and>
   get_prop (fst (step test_steps 2000 fresh_record 0 [])) 0 ''history'' =
     Arr [Obj [(''state'', Str ''Start''), (''updated'', Num 1000)]] \<and>
   history_of (fst (step test_steps 2000 fresh_record 0 [])) 0 ! 0 =
     Obj [(''state'', Str ''Start''), (''updated'', Num 1000)] \<and>
   length (history_of (fst (step test_steps 2000 fresh_record 0 [])) 0) = 1"
proof -
  have hd: "test_steps (to_string (get_prop fresh_record 0 ''state'')) = Some (goto ''Middle'')"
    by (simp add: fresh_state test_steps_def)
  have ct: "test_steps ''catch'' = Some (goto ''End'')"
    by (simp add: test_steps_def)
  have cs: "\<forall>c. test_steps ''catch'' = Some c \<longrightarrow> keeps_history c 0"
    by (simp add: ct keeps_history_goto)
  have tr: "transition_result test_steps 2000 fresh_record 0 [] =
              (stamped 2000 fresh_record 0, Return (Str ''Middle''))"
    using fresh_history_ok hd by (rule transition_result_return) (simp add: goto_def)
  have ok: "snd (step test_steps 2000 fresh_record 0 []) = Return (Ref 0)"
    using fresh_not_done hd tr by (simp add: step_live apply_transition_string)
  then have run: "step test_steps 2000 fresh_record 0 [] =
                    (fst (step test_steps 2000 fresh_record 0 []), Return (Ref 0))"
    by (simp add: prod_eq_iff)
  from history_grows_by_snapshot
         [where handlers = test_steps and h = fresh_record and a = 0 and now = 2000
            and args = "[]" and f = "goto ''Middle''"
            and h' = "fst (step test_steps 2000 fresh_record 0 [])" and v = "Ref 0",
          OF fresh_not_done fresh_history_ok hd keeps_history_goto cs run]
  have "get_prop (fst (step test_steps 2000 fresh_record 0 [])) 0 ''history'' =
          Arr (snapshot fresh_record 0 # history_of fresh_record 0) \<and>
        history_of (fst (step test_steps 2000 fresh_record 0 [])) 0 ! 0 = snapshot fresh_record 0 \<and>
        length (history_of (fst (step test_steps 2000 fresh_record 0 [])) 0) =
          length (history_of fresh_record 0) + 1" .
  then show ?thesis
    using fresh_not_done fresh_history_ok hd ct ok
    by (simp add: fresh_snapshot fresh_history keeps_history_goto)
qed

subsection \<open>C2: a record that is done\<close>

text \<open>
  Claim C2: for every record whose \<^verbatim>\<open>done\<close> is \<^verbatim>\<open>true\<close>, the step returns the very
  same record and the store is as it was: nothing is archived, \<^verbatim>\<open>updated\<close> and
  \<^verbatim>\<open>state\<close> keep their values, and the outcome is the same for every table, so no
  handler has a part in it.
\<close>

theorem done_record_unchanged:
  "get_prop h a ''done'' = Bool True \<Longrightarrow> step handlers now h a args = (h, Return (Ref a))"
  by (simp add: step_done)

theorem done_record_unchanged_witness:
  "get_prop done_record 0 ''done'' = Bool True \<and>
   step test_steps 2000 done_record 0 [] = (done_record, Return (Ref 0))"
proof -
  have d: "get_prop done_record 0 ''done'' = Bool True"
    by (simp add: engine_defs example_defs record_defs)
  from done_record_unchanged
         [where h = done_record and a = 0 and handlers = test_steps and now = 2000
            and args = "[]", OF d]
       d show ?thesis by simp
qed

subsection \<open>C3: a state without a handler\<close>

text \<open>
  Claim C3 says that on every record that is not done and whose state names no
  registered handler, the step fails with the invalid-state error before the record is
  touched, the catch handler having no part in it. The check of the code is the read
  \<^verbatim>\<open>handlers[state.state]\<close>, and that read finds more than the handlers of the states.

  \<^item> It finds the \<^verbatim>\<open>catch\<close> entry, which every stepper has: with the table
    \<^verbatim>\<open>{Start: () => 5}\<close> a record in state \<open>catch\<close> passes the check, is archived and
    stamped, and the default catch handler throws the record itself.
  \<^item> It finds what the table inherits from \<^verbatim>\<open>Object.prototype\<close>: with the table of the
    test a record in state \<open>toString\<close> passes the check, is archived and stamped, and
    moves to the state \<^verbatim>\<open>[object Object]\<close>.
\<close>

theorem unknown_state_counterexample:
  "number_steps ''catch'' = None \<and>
   \<not> truthy (get_prop (record_in ''catch'') 0 ''done'') \<and>
   step (install_catch number_steps) 2000 (record_in ''catch'') 0 [] =
     (stamped 2000 (record_in ''catch'') 0, Throw (Ref 0)) \<and>
   get_prop (stamped 2000 (record_in ''catch'') 0) 0 ''history'' =
     Arr [Obj [(''state'', Str ''catch''), (''updated'', Num 1000)]] \<and>
   get_prop (stamped 2000 (record_in ''catch'') 0) 0 ''updated'' = Num 2000 \<and>
   test_steps ''toString'' = None \<and>
   \<not> truthy (get_prop (record_in ''toString'') 0 ''done'') \<and>
   snd (step (install_catch test_steps) 2000 (record_in ''toString'') 0 []) = Return (Ref 0) \<and>
   get_prop (fst (step (install_catch test_steps) 2000 (record_in ''toString'') 0 [])) 0 ''state'' =
     Str ''[object Object]'' \<and>
   get_prop (fst (step (install_catch test_steps) 2000 (record_in ''toString'') 0 [])) 0 ''history'' =
     Arr [Obj [(''state'', Str ''toString''), (''updated'', Num 1000)]] \<and>
   get_prop (fst (step (install_catch test_steps) 2000 (record_in ''toString'') 0 [])) 0 ''updated'' =
     Num 2000"
  by (simp add: engine_defs example_defs record_defs)

text \<open>
  C3 as amended: for every record that is not done and whose state is a string that is
  not \<open>catch\<close>, is not the name of a property the table inherits from
  \<^verbatim>\<open>Object.prototype\<close>, and names no entry of the table, the step of the constructed
  stepper fails with the invalid-state assertion error, and the store is as it was,
  history and \<^verbatim>\<open>updated\<close> included. The table is arbitrary: whatever its catch
  handler is, the outcome is this error and not what the catch handler would make of it.
\<close>

theorem unknown_state_rejected:
  assumes "\<not> truthy (get_prop h a ''done'')"
    and "get_prop h a ''state'' = Str s"
    and "t s = None"
    and "s \<noteq> ''catch''"
    and "s \<notin> set inherited_names"
  shows "step (install_catch t) now h a args =
         (h, Throw (Err (AssertionError (''Invalid state trasition: '' @ s))))"
proof -
  have "install_catch t s = None"
    using assms(3,4) by (simp add: install_catch_eq)
  then have "lookup (install_catch t) s = None"
    using assms(5) by (rule lookup_None)
  then show ?thesis
    using assms(1,2) by (simp add: step_def)
qed

text \<open>The table of the test has a catch handler answering \<open>End\<close>; it is not consulted.\<close>

theorem unknown_state_rejected_witness:
  "\<not> truthy (get_prop (record_in ''Nowhere'') 0 ''done'') \<and>
   get_prop (record_in ''Nowhere'') 0 ''state'' = Str ''Nowhere'' \<and>
   test_steps ''Nowhere'' = None \<and>
   ''Nowhere'' \<noteq> ''catch'' \<and>
   ''Nowhere'' \<notin> set inherited_names \<and>
   step (install_catch test_steps) 2000 (record_in ''Nowhere'') 0 [] =
     (record_in ''Nowhere'', Throw (Err (AssertionError ''Invalid state trasition: Nowhere'')))"
proof -
  have nd: "\<not> truthy (get_prop (record_in ''Nowhere'') 0 ''done'')"
    by (rule record_in_not_done)
  have st: "get_prop (record_in ''Nowhere'') 0 ''state'' = Str ''Nowhere''"
    by (rule record_in_state)
  have no: "test_steps ''Nowhere'' = None"
    by (simp add: test_steps_def)
  have nc: "''Nowhere'' \<noteq> ''catch''"
    by simp
  have ni: "''Nowhere'' \<notin> set inherited_names"
    by (simp add: inherited_names_def)
  from unknown_state_rejected
         [where t = test_steps and h = "record_in ''Nowhere''" and a = 0 and s = "''Nowhere''"
            and now = 2000 and args = "[]", OF nd st no nc ni]
       nd st no nc ni show ?thesis by simp
qed

subsection \<open>C4: a handler that throws\<close>

text \<open>
  Claim C4 says that the error a handler throws goes to the catch handler with the
  record and the extra arguments, that the catch handler's result replaces the
  transition result, and that a string \<open>E\<close> it returns is the state afterwards. The last
  part fails for the empty string, which is falsy and assigns nothing: with
  \<^verbatim>\<open>Start: () => { throw new Error('error') }\<close> and \<^verbatim>\<open>catch: () => ''\<close> the state
  after the step is still \<open>Start\<close>.
\<close>

theorem catch_string_counterexample:
  "\<not> truthy (get_prop fresh_record 0 ''done'') \<and>
   blank_catch_steps (to_string (get_prop fresh_record 0 ''state'')) =
     Some (raise (Err (Error ''error''))) \<and>
   raise (Err (Error ''error'')) (stamped 2000 fresh_record 0) [Ref 0] =
     (stamped 2000 fresh_record 0, Throw (Err (Error ''error''))) \<and>
   blank_catch_steps ''catch'' = Some (goto []) \<and>
   goto [] (stamped 2000 fresh_record 0) [Err (Error ''error''), Ref 0] =
     (stamped 2000 fresh_record 0, Return (Str [])) \<and>
   snd (step blank_catch_steps 2000 fresh_record 0 []) = Return (Ref 0) \<and>
   get_prop (fst (step blank_catch_steps 2000 fresh_record 0 [])) 0 ''state'' = Str ''Start'' \<and>
   get_prop (fst (step blank_catch_steps 2000 fresh_record 0 [])) 0 ''state'' \<noteq> Str []"
  by (simp add: engine_defs example_defs record_defs)

text \<open>
  C4 as amended: for a record that is not done (its history absent, \<^verbatim>\<open>null\<close> or an
  array) whose handler throws \<open>e\<close>, the catch handler is called with \<open>e\<close>, the record and
  the extra arguments, in the store the handler left, and its completion is the
  transition result; if it returns a non-empty string \<open>E\<close>, the step returns the record
  with \<^verbatim>\<open>state\<close> equal to \<open>E\<close>, so the error does not reach the caller.
\<close>

theorem thrown_error_goes_to_catch:
  assumes "\<not> truthy (get_prop h a ''done'')"
    and "history_ok (get_prop h a ''history'')"
    and "handlers (to_string (get_prop h a ''state'')) = Some f"
    and "f (stamped now h a) (Ref a # args) = (h1, Throw e)"
    and "handlers ''catch'' = Some c"
  shows "step handlers now h a args = apply_transition a (c h1 (e # Ref a # args)) \<and>
         (\<forall>h2 E. c h1 (e # Ref a # args) = (h2, Return (Str E)) \<and> E \<noteq> [] \<longrightarrow>
            step handlers now h a args = (set_prop h2 a ''state'' (Str E), Return (Ref a)) \<and>
            get_prop (fst (step handlers now h a args)) a ''state'' = Str E)"
proof -
  have "transition_result handlers now h a args = c h1 (e # Ref a # args)"
    using assms(2-5) by (simp add: transition_result_throw call_catch_eq)
  then have "step handlers now h a args = apply_transition a (c h1 (e # Ref a # args))"
    using assms(1,3) by (simp add: step_live)
  then show ?thesis
    by (simp add: apply_transition_string get_set_same)
qed

text \<open>The third step of the test run: \<open>Error\<close> throws, the catch handler answers \<open>End\<close>.\<close>

theorem thrown_error_goes_to_catch_witness:
  "\<not> truthy (get_prop (record_in ''Error'') 0 ''done'') \<and>
   history_ok (get_prop (record_in ''Error'') 0 ''history'') \<and>
   test_steps (to_string (get_prop (record_in ''Error'') 0 ''state'')) =
     Some (raise (Err (Error ''error''))) \<and>
   raise (Err (Error ''error'')) (stamped 2000 (record_in ''Error'') 0) [Ref 0] =
     (stamped 2000 (record_in ''Error'') 0, Throw (Err (Error ''error''))) \<and>
   test_steps ''catch'' = Some (goto ''End'') \<and>
   goto ''End'' (stamped 2000 (record_in ''Error'') 0) [Err (Error ''error''), Ref 0] =
     (stamped 2000 (record_in ''Error'') 0, Return (Str ''End'')) \<and>
   step test_steps 2000 (record_in ''Error'') 0 [] =
     (set_prop (stamped 2000 (record_in ''Error'') 0) 0 ''state'' (Str ''End''), Return (Ref 0)) \<and>
   get_prop (fst (step test_steps 2000 (record_in ''Error'') 0 [])) 0 ''state'' = Str ''End''"
proof -
  have hd: "test_steps (to_string (get_prop (record_in ''Error'') 0 ''state'')) =
              Some (raise (Err (Error ''error'')))"
    by (simp add: record_in_state test_steps_def)
  have call: "raise (Err (Error ''error'')) (stamped 2000 (record_in ''Error'') 0) (Ref 0 # []) =
     (stamped 2000 (record_in ''Error'') 0, Throw (Err (Error ''error'')))"
    by (simp add: raise_def)
  have ct: "test_steps ''catch'' = Some (goto ''End'')"
    by (simp add: test_steps_def)
  have cc: "goto ''End'' (stamped 2000 (record_in ''Error'') 0) [Err (Error ''error''), Ref 0] =
     (stamped 2000 (record_in ''Error'') 0, Return (Str ''End''))"
    by (simp add: goto_def)
  have ne: "''End'' \<noteq> []" by simp
  from thrown_error_goes_to_catch
         [where handlers = test_steps and h = "record_in ''Error''" and a = 0 and now = 2000
            and args = "[]" and f = "raise (Err (Error ''error''))"
            and ?h1.0 = "stamped 2000 (record_in ''Error'') 0" and e = "Err (Error ''error'')"
            and c = "goto ''End''",
          OF record_in_not_done record_in_history_ok hd call ct]
  have "step test_steps 2000 (record_in ''Error'') 0 [] =
     (set_prop (stamped 2000 (record_in ''Error'') 0) 0 ''state'' (Str ''End''), Return (Ref 0)) \<and>
     get_prop (fst (step test_steps 2000 (record_in ''Error'') 0 [])) 0 ''state'' = Str ''End''"
    using cc ne by blast
  then show ?thesis
    using record_in_not_done [of "''Error''"] record_in_history_ok [of "''Error''"] hd call ct cc
    by blast
qed

subsection \<open>C5: a handler that returns a string\<close>

text \<open>
  Claim C5 says that a string \<open>S\<close> returned by the handler is the state afterwards. The
  empty string is a string, and the engine tests the result for truthiness before it
  assigns: with \<^verbatim>\<open>Start: () => ''\<close> the state after the step is still \<open>Start\<close>.
\<close>

theorem string_result_counterexample:
  "\<not> truthy (get_prop fresh_record 0 ''done'') \<and>
   install_catch blank_steps (to_string (get_prop fresh_record 0 ''state'')) = Some (goto []) \<and>
   goto [] (stamped 2000 fresh_record 0) [Ref 0] = (stamped 2000 fresh_record 0, Return (Str [])) \<and>
   snd (step (install_catch blank_steps) 2000 fresh_record 0 []) = Return (Ref 0) \<and>
   get_prop (fst (step (install_catch blank_steps) 2000 fresh_record 0 [])) 0 ''state'' =
     Str ''Start'' \<and>
   get_prop (fst (step (install_catch blank_steps) 2000 fresh_record 0 [])) 0 ''state'' \<noteq> Str []"
  by (simp add: engine_defs example_defs record_defs)

text \<open>
  C5 as amended: for a record that is not done (its history absent, \<^verbatim>\<open>null\<close> or an
  array) whose handler returns a non-empty string \<open>S\<close>, the engine assigns \<open>S\<close> to
  \<^verbatim>\<open>state\<close> in the store the handler left and returns the record, so the state after
  the step is \<open>S\<close>.
\<close>

theorem string_result_becomes_state:
  assumes "\<not> truthy (get_prop h a ''done'')"
    and "history_ok (get_prop h a ''history'')"
    and "handlers (to_string (get_prop h a ''state'')) = Some f"
    and "f (stamped now h a) (Ref a # args) = (h1, Return (Str S))"
    and "S \<noteq> []"
  shows "step handlers now h a args = (set_prop h1 a ''state'' (Str S), Return (Ref a)) \<and>
         get_prop (fst (step handlers now h a args)) a ''state'' = Str S"
proof -
  have "step handlers now h a args = apply_transition a (h1, Return (Str S))"
    using assms(1-4) by (simp add: step_live transition_result_return)
  then show ?thesis
    using assms(5) by (simp add: apply_transition_string get_set_same)
qed

theorem string_result_becomes_state_witness:
  "\<not> truthy (get_prop fresh_record 0 ''done'') \<and>
   history_ok (get_prop fresh_record 0 ''history'') \<and>
   test_steps (to_string (get_prop fresh_record 0 ''state'')) = Some (goto ''Middle'') \<and>
   goto ''Middle'' (stamped 2000 fresh_record 0) [Ref 0] =
     (stamped 2000 fresh_record 0, Return (Str ''Middle'')) \<and>
   step test_steps 2000 fresh_record 0 [] =
     (set_prop (stamped 2000 fresh_record 0) 0 ''state'' (Str ''Middle''), Return (Ref 0)) \<and>
   get_prop (fst (step test_steps 2000 fresh_record 0 [])) 0 ''state'' = Str ''Middle''"
proof -
  have hd: "test_steps (to_string (get_prop fresh_record 0 ''state'')) = Some (goto ''Middle'')"
    by (simp add: fresh_state test_steps_def)
  have call: "goto ''Middle'' (stamped 2000 fresh_record 0) (Ref 0 # []) =
                (stamped 2000 fresh_record 0, Return (Str ''Middle''))"
    by (simp add: goto_def)
  have ne: "''Middle'' \<noteq> []" by simp
  from string_result_becomes_state
         [where handlers = test_steps and h = fresh_record and a = 0 and now = 2000
            and args = "[]" and f = "goto ''Middle''" and S = "''Middle''"
            and ?h1.0 = "stamped 2000 fresh_record 0",
          OF fresh_not_done fresh_history_ok hd call ne]
       fresh_not_done fresh_history_ok hd call show ?thesis by blast
qed

subsection \<open>C6: the state named catch\<close>

text \<open>
  Claim C6 says that the catch handler is keyed apart from the states, so that a record
  whose state is the catch handler's key fails the invalid-state check. The code keeps
  the catch handler in the table itself, under \<^verbatim>\<open>catch\<close>, and the check is a lookup in
  that table: with the table of the test, a record in state \<open>catch\<close> passes the check,
  the catch handler runs as its state handler and the record moves to \<open>End\<close>.
\<close>

theorem catch_state_counterexample:
  "\<not> truthy (get_prop (record_in ''catch'') 0 ''done'') \<and>
   get_prop (record_in ''catch'') 0 ''state'' = Str ''catch'' \<and>
   makeStepper (Some test_steps) = Inr (step (install_catch test_steps)) \<and>
   snd (step (install_catch test_steps) 2000 (record_in ''catch'') 0 []) = Return (Ref 0) \<and>
   get_prop (fst (step (install_catch test_steps) 2000 (record_in ''catch'') 0 [])) 0 ''state'' =
     Str ''End'' \<and>
   snd (step (install_catch test_steps) 2000 (record_in ''catch'') 0 []) \<noteq>
     Throw (Err (AssertionError ''Invalid state trasition: catch''))"
  by (simp add: engine_defs example_defs record_defs makeStepper_def)

text \<open>
  C6 as amended: the catch handler is the entry \<^verbatim>\<open>catch\<close> of the handler table, which
  every constructed stepper has (the default one when none was supplied). For a record
  that is not done (its history absent, \<^verbatim>\<open>null\<close> or an array) whose state is \<open>catch\<close>,
  the invalid-state check passes and that entry is called as the state's handler, with
  the record and the extra arguments, after the archive and the time stamp; if it throws,
  it is called again as the catch handler.
\<close>

theorem catch_is_a_table_entry:
  assumes "\<not> truthy (get_prop h a ''done'')"
    and "history_ok (get_prop h a ''history'')"
    and "get_prop h a ''state'' = Str ''catch''"
  shows "\<exists>c. install_catch t ''catch'' = Some c \<and>
           step (install_catch t) now h a args =
             apply_transition a
               (case c (stamped now h a) (Ref a # args) of
                  (h1, Throw e) \<Rightarrow> c h1 (e # Ref a # args)
                | (h1, Return v) \<Rightarrow> (h1, Return v))"
proof -
  obtain c where c: "install_catch t ''catch'' = Some c"
    by (cases "t ''catch''") (auto simp: install_catch_eq)
  then have key: "install_catch t (to_string (get_prop h a ''state'')) = Some c"
    using assms(3) by simp
  have "try_block (install_catch t) now h a args = c (stamped now h a) (Ref a # args)"
    using assms(2) key by (rule try_block_ok)
  then have "transition_result (install_catch t) now h a args =
        (case c (stamped now h a) (Ref a # args) of
           (h1, Throw e) \<Rightarrow> c h1 (e # Ref a # args)
         | (h1, Return v) \<Rightarrow> (h1, Return v))"
    using c by (simp add: transition_result_def call_catch_eq split: prod.splits completion.splits)
  then show ?thesis
    using c assms(1) key by (simp add: step_live)
qed

text \<open>
  With the default catch handler the record itself is thrown, twice, and the step
  rejects with it.
\<close>

theorem catch_is_a_table_entry_witness:
  "\<not> truthy (get_prop (record_in ''catch'') 0 ''done'') \<and>
   history_ok (get_prop (record_in ''catch'') 0 ''history'') \<and>
   get_prop (record_in ''catch'') 0 ''state'' = Str ''catch'' \<and>
   install_catch failing_steps ''catch'' = Some default_catch \<and>
   step (install_catch failing_steps) 2000 (record_in ''catch'') 0 [] =
     (stamped 2000 (record_in ''catch'') 0, Throw (Ref 0))"
proof -
  have dc: "install_catch failing_steps ''catch'' = Some default_catch"
    by (simp add: install_catch_eq failing_steps_def)
  from catch_is_a_table_entry
         [where h = "record_in ''catch''" and a = 0 and t = failing_steps and now = 2000
            and args = "[]",
          OF record_in_not_done record_in_history_ok record_in_state]
  obtain c where c: "install_catch failing_steps ''catch'' = Some c"
    and run: "step (install_catch failing_steps) 2000 (record_in ''catch'') 0 [] =
             apply_transition 0
               (case c (stamped 2000 (record_in ''catch'') 0) [Ref 0] of
                  (h1, Throw e) \<Rightarrow> c h1 [e, Ref 0]
                | (h1, Return v) \<Rightarrow> (h1, Return v))"
    by blast
  from c dc have "c = default_catch" by simp
  with run have "step (install_catch failing_steps) 2000 (record_in ''catch'') 0 [] =
     (stamped 2000 (record_in ''catch'') 0, Throw (Ref 0))"
    by (simp add: default_catch_def arg0_def apply_transition_def)
  then show ?thesis
    using record_in_not_done [of "''catch''"] record_in_history_ok [of "''catch''"]
      record_in_state [of "''catch''"] dc
    by blast
qed

subsection \<open>C7: a result of the wrong type\<close>

text \<open>
  Claim C7: for a record that is not done (its history absent, \<^verbatim>\<open>null\<close> or an array)
  whose transition result, from the handler or from the catch handler, is truthy, not a
  string and not the record, the step fails with the assertion error on the return type.
  By then the handler has been called in the store that holds the archived snapshot and
  the new time stamp, and the store of the failed step is the one the handlers left:
  nothing is rolled back.
\<close>

theorem bad_return_type_after_mutation:
  assumes "\<not> truthy (get_prop h a ''done'')"
    and "history_ok (get_prop h a ''history'')"
    and "handlers (to_string (get_prop h a ''state'')) = Some f"
    and "transition_result handlers now h a args = (h1, Return v)"
    and "truthy v" and "\<not> is_string v" and "v \<noteq> Ref a"
  shows "step handlers now h a args =
           (h1, Throw (Err (AssertionError
              ''State handlers must return either a string state transition or nothing''))) \<and>
         get_prop (stamped now h a) a ''history'' = Arr (snapshot h a # history_of h a) \<and>
         get_prop (stamped now h a) a ''updated'' = Num now \<and>
         (f (stamped now h a) (Ref a # args) = (h1, Return v) \<or>
          (\<exists>hf e c. f (stamped now h a) (Ref a # args) = (hf, Throw e) \<and>
             handlers ''catch'' = Some c \<and> c hf (e # Ref a # args) = (h1, Return v)))"
proof -
  have "step handlers now h a args = apply_transition a (h1, Return v)"
    using assms(1,3,4) by (simp add: step_live)
  then have err: "step handlers now h a args =
           (h1, Throw (Err (AssertionError
              ''State handlers must return either a string state transition or nothing'')))"
    using assms(5-7) by (simp add: apply_transition_def)
  obtain hf rf where call: "f (stamped now h a) (Ref a # args) = (hf, rf)"
    by (cases "f (stamped now h a) (Ref a # args)")
  have route: "f (stamped now h a) (Ref a # args) = (h1, Return v) \<or>
          (\<exists>hf e c. f (stamped now h a) (Ref a # args) = (hf, Throw e) \<and>
             handlers ''catch'' = Some c \<and> c hf (e # Ref a # args) = (h1, Return v))"
  proof (cases rf)
    case (Return t)
    with call assms(2,3,4) show ?thesis
      by (simp add: transition_result_return)
  next
    case (Throw e)
    with call assms(2,3,4) have cc: "call_catch handlers hf e a args = (h1, Return v)"
      by (simp add: transition_result_throw)
    then obtain c where "handlers ''catch'' = Some c" "c hf (e # Ref a # args) = (h1, Return v)"
      by (cases "handlers ''catch''") (auto simp: call_catch_eq)
    with call Throw show ?thesis by blast
  qed
  show ?thesis
    using err route assms(2) by (simp add: stamped_history stamped_updated)
qed

text \<open>
  \<^verbatim>\<open>Start: () => 5\<close> on a fresh record: the step fails, and the store it leaves holds
  the snapshot of \<open>Start\<close> and the time 2000.
\<close>

theorem bad_return_type_after_mutation_witness:
  "\<not> truthy (get_prop fresh_record 0 ''done'') \<and>
   history_ok (get_prop fresh_record 0 ''history'') \<and>
   install_catch number_steps (to_string (get_prop fresh_record 0 ''state'')) = Some (give (Num 5)) \<and>
   transition_result (install_catch number_steps) 2000 fresh_record 0 [] =
     (stamped 2000 fresh_record 0, Return (Num 5)) \<and>
   truthy (Num 5) \<and> \<not> is_string (Num 5) \<and> Num 5 \<noteq> Ref 0 \<and>
   step (install_catch number_steps) 2000 fresh_record 0 [] =
     (stamped 2000 fresh_record 0, Throw (Err (AssertionError
        ''State handlers must return either a string state transition or nothing''))) \<and>
   get_prop (stamped 2000 fresh_record 0) 0 ''history'' =
     Arr [Obj [(''state'', Str ''Start''), (''updated'', Num 1000)]] \<and>
   get_prop (stamped 2000 fresh_record 0) 0 ''updated'' = Num 2000"
proof -
  have hd: "install_catch number_steps (to_string (get_prop fresh_record 0 ''state'')) =
              Some (give (Num 5))"
    by (simp add: fresh_state install_catch_eq number_steps_def)
  have tr: "transition_result (install_catch number_steps) 2000 fresh_record 0 [] =
     (stamped 2000 fresh_record 0, Return (Num 5))"
    using fresh_history_ok hd by (rule transition_result_return) (simp add: give_def)
  have t: "truthy (Num 5)" and s: "\<not> is_string (Num 5)" and r: "Num 5 \<noteq> Ref 0"
    by simp_all
  from bad_return_type_after_mutation
         [where handlers = "install_catch number_steps" and h = fresh_record and a = 0
            and now = 2000 and args = "[]" and f = "give (Num 5)"
            and ?h1.0 = "stamped 2000 fresh_record 0" and v = "Num 5",
          OF fresh_not_done fresh_history_ok hd tr t s r]
  have "step (install_catch number_steps) 2000 fresh_record 0 [] =
     (stamped 2000 fresh_record 0, Throw (Err (AssertionError
        ''State handlers must return either a string state transition or nothing''))) \<and>
     get_prop (stamped 2000 fresh_record 0) 0 ''history'' =
       Arr (snapshot fresh_record 0 # history_of fresh_record 0) \<and>
     get_prop (stamped 2000 fresh_record 0) 0 ''updated'' = Num 2000"
    by blast
  then show ?thesis
    using fresh_not_done fresh_history_ok hd tr
    by (simp add: fresh_snapshot fresh_history)
qed

subsection \<open>C8: the default catch handler\<close>

text \<open>
  Claim C8: when the table has no \<^verbatim>\<open>catch\<close> entry, construction installs one that
  throws the error it is given; so for a record that is not done (its history absent,
  \<^verbatim>\<open>null\<close> or an array) whose handler throws \<open>e\<close>, the step rejects with that same
  \<open>e\<close>.
\<close>

theorem default_catch_rethrows:
  assumes "t ''catch'' = None"
    and "\<not> truthy (get_prop h a ''done'')"
    and "history_ok (get_prop h a ''history'')"
    and "install_catch t (to_string (get_prop h a ''state'')) = Some f"
    and "f (stamped now h a) (Ref a # args) = (h1, Throw e)"
  shows "makeStepper (Some t) = Inr (step (install_catch t)) \<and>
         install_catch t ''catch'' = Some default_catch \<and>
         default_catch h1 (e # Ref a # args) = (h1, Throw e) \<and>
         step (install_catch t) now h a args = (h1, Throw e)"
proof -
  have c: "install_catch t ''catch'' = Some default_catch"
    using assms(1) by (simp add: install_catch_eq)
  have d: "default_catch h1 (e # Ref a # args) = (h1, Throw e)"
    by (simp add: default_catch_def arg0_def)
  have "transition_result (install_catch t) now h a args = (h1, Throw e)"
    using assms(3-5) c d by (simp add: transition_result_throw call_catch_eq)
  then have "step (install_catch t) now h a args = apply_transition a (h1, Throw e)"
    using assms(2,4) by (simp add: step_live)
  then show ?thesis
    using c d by (simp add: apply_transition_def makeStepper_def)
qed

theorem default_catch_rethrows_witness:
  "failing_steps ''catch'' = None \<and>
   \<not> truthy (get_prop fresh_record 0 ''done'') \<and>
   history_ok (get_prop fresh_record 0 ''history'') \<and>
   install_catch failing_steps (to_string (get_prop fresh_record 0 ''state'')) =
     Some (raise (Err (Error ''error''))) \<and>
   raise (Err (Error ''error'')) (stamped 2000 fresh_record 0) [Ref 0] =
     (stamped 2000 fresh_record 0, Throw (Err (Error ''error''))) \<and>
   step (install_catch failing_steps) 2000 fresh_record 0 [] =
     (stamped 2000 fresh_record 0, Throw (Err (Error ''error'')))"
proof -
  have nc: "failing_steps ''catch'' = None"
    by (simp add: failing_steps_def)
  have hd: "install_catch failing_steps (to_string (get_prop fresh_record 0 ''state'')) =
     Some (raise (Err (Error ''error'')))"
    by (simp add: fresh_state install_catch_eq failing_steps_def)
  have call: "raise (Err (Error ''error'')) (stamped 2000 fresh_record 0) (Ref 0 # []) =
     (stamped 2000 fresh_record 0, Throw (Err (Error ''error'')))"
    by (simp add: raise_def)
  from default_catch_rethrows
         [where t = failing_steps and h = fresh_record and a = 0 and now = 2000
            and args = "[]" and f = "raise (Err (Error ''error''))"
            and ?h1.0 = "stamped 2000 fresh_record 0" and e = "Err (Error ''error'')",
          OF nc fresh_not_done fresh_history_ok hd call]
  have "step (install_catch failing_steps) 2000 fresh_record 0 [] =
     (stamped 2000 fresh_record 0, Throw (Err (Error ''error'')))"
    by blast
  then show ?thesis
    using nc fresh_not_done fresh_history_ok hd call by blast
qed

subsection \<open>C9: the state constructor\<close>

text \<open>
  Claim C9: \<^verbatim>\<open>State\<close> gives the defaults \<^verbatim>\<open>state = 'Start'\<close>, \<^verbatim>\<open>done = false\<close>,
  \<^verbatim>\<open>history = []\<close> and \<^verbatim>\<open>updated\<close> = the current time, overlaid with the fields of
  the argument: on every key the argument has, its value wins (\<^verbatim>\<open>state\<close> included), and
  every other key has its default. Without an argument the result is the defaults and
  nothing else.
\<close>

theorem State_defaults_overlaid:
  "State now None = defaults now \<and>
   (\<forall>k. State now (Some m) k = (case m k of Some v \<Rightarrow> Some v | None \<Rightarrow> defaults now k)) \<and>
   defaults now ''state'' = Some (Str ''Start'') \<and>
   defaults now ''done'' = Some (Bool False) \<and>
   defaults now ''history'' = Some (Arr []) \<and>
   defaults now ''updated'' = Some (Num now) \<and>
   dom (defaults now) = {''state'', ''done'', ''history'', ''updated''}"
  by (auto simp: State_def defaults_def map_add_def split: option.splits if_splits)

text \<open>The README's \<^verbatim>\<open>State({state: 'Other', foo: 1})\<close>.\<close>

theorem State_defaults_overlaid_witness:
  "State 1000 (Some [''state'' \<mapsto> Str ''Other'', ''foo'' \<mapsto> Num 1]) ''state'' = Some (Str ''Other'') \<and>
   State 1000 (Some [''state'' \<mapsto> Str ''Other'', ''foo'' \<mapsto> Num 1]) ''foo'' = Some (Num 1) \<and>
   State 1000 (Some [''state'' \<mapsto> Str ''Other'', ''foo'' \<mapsto> Num 1]) ''done'' = Some (Bool False) \<and>
   State 1000 (Some [''state'' \<mapsto> Str ''Other'', ''foo'' \<mapsto> Num 1]) ''history'' = Some (Arr []) \<and>
   State 1000 (Some [''state'' \<mapsto> Str ''Other'', ''foo'' \<mapsto> Num 1]) ''updated'' = Some (Num 1000) \<and>
   State 1000 None ''state'' = Some (Str ''Start'')"
  using State_defaults_overlaid [of 1000 "[''state'' \<mapsto> Str ''Other'', ''foo'' \<mapsto> Num 1]"]
  by simp

subsection \<open>C10: the empty string as a result\<close>

text \<open>
  Claim C10: for a record that is not done and whose state has a handler, when the
  transition result is the empty string the step succeeds, returns the record and leaves
  the store as the handlers left it, \<^verbatim>\<open>state\<close> included: the empty string is treated as
  \<^verbatim>\<open>undefined\<close> is.
\<close>

theorem empty_string_result_no_change:
  assumes "\<not> truthy (get_prop h a ''done'')"
    and "handlers (to_string (get_prop h a ''state'')) \<noteq> None"
    and "transition_result handlers now h a args = (h1, Return (Str []))"
  shows "step handlers now h a args = (h1, Return (Ref a)) \<and>
         apply_transition a (h1, Return (Str [])) = apply_transition a (h1, Return Undefined)"
proof -
  from assms(2) obtain f where "handlers (to_string (get_prop h a ''state'')) = Some f"
    by blast
  then have "step handlers now h a args = apply_transition a (h1, Return (Str []))"
    using assms(1,3) by (simp add: step_live)
  then show ?thesis
    by (simp add: apply_transition_def)
qed

theorem empty_string_result_no_change_witness:
  "\<not> truthy (get_prop fresh_record 0 ''done'') \<and>
   install_catch blank_steps (to_string (get_prop fresh_record 0 ''state'')) \<noteq> None \<and>
   transition_result (install_catch blank_steps) 2000 fresh_record 0 [] =
     (stamped 2000 fresh_record 0, Return (Str [])) \<and>
   step (install_catch blank_steps) 2000 fresh_record 0 [] =
     (stamped 2000 fresh_record 0, Return (Ref 0)) \<and>
   get_prop (stamped 2000 fresh_record 0) 0 ''state'' = Str ''Start''"
proof -
  have hd: "install_catch blank_steps (to_string (get_prop fresh_record 0 ''state'')) =
              Some (goto [])"
    by (simp add: fresh_state install_catch_eq blank_steps_def)
  then have hd': "install_catch blank_steps (to_string (get_prop fresh_record 0 ''state'')) \<noteq> None"
    by simp
  have tr: "transition_result (install_catch blank_steps) 2000 fresh_record 0 [] =
              (stamped 2000 fresh_record 0, Return (Str []))"
    using fresh_history_ok hd by (rule transition_result_return) (simp add: goto_def)
  from empty_string_result_no_change
         [where handlers = "install_catch blank_steps" and h = fresh_record and a = 0
            and now = 2000 and args = "[]" and ?h1.0 = "stamped 2000 fresh_record 0",
          OF fresh_not_done hd' tr]
       fresh_not_done hd' tr fresh_state show ?thesis
    by (simp add: stamped_state)
qed

end
